theory Spec2Isabelle
  imports Complex_Main
begin

section \<open>Python values\<close>

text \<open>
  The command builder of \<^verbatim>\<open>q2_bbduk/_trim.py\<close> is dynamically typed: it tests its
  arguments for \<^verbatim>\<open>None\<close>, for truthiness and against \<^verbatim>\<open>0\<close>, and formats them into
  f-strings. The values it can meet are modelled by one datatype. A float is the pair
  of the real number it denotes and the text CPython prints for it (\<open>PFloat 6 ''6.0''\<close>):
  the builder compares the first and formats the second, and the theorems hold for every
  such pair. The non-finite floats are left out.
\<close>

datatype pyval = PNone | PBool bool | PInt int | PFloat real string | PStr string

datatype exn =
    TypeError
  | CalledProcessError int "string list"
  | OSError

text \<open>Decimal digits of a natural number, most significant first.\<close>

definition digit :: "nat \<Rightarrow> char" where
  "digit d = ''0123456789'' ! d"

fun digits :: "nat \<Rightarrow> string" where
  "digits n = (if n < 10 then [digit n] else digits (n div 10) @ [digit (n mod 10)])"

declare digits.simps [simp del]

text \<open>\<^verbatim>\<open>str(i)\<close> for an int.\<close>

definition str_int :: "int \<Rightarrow> string" where
  "str_int i = (if i < 0 then CHR ''-'' # digits (nat (- i)) else digits (nat i))"

text \<open>\<^verbatim>\<open>f'{v}'\<close>, that is \<^verbatim>\<open>str(v)\<close>.\<close>

fun py_str :: "pyval \<Rightarrow> string" where
  "py_str PNone = ''None''"
| "py_str (PBool b) = (if b then ''True'' else ''False'')"
| "py_str (PInt i) = str_int i"
| "py_str (PFloat x s) = s"
| "py_str (PStr s) = s"

text \<open>\<^verbatim>\<open>bool(v)\<close>, the test an \<^verbatim>\<open>if v:\<close> makes.\<close>

fun truthy :: "pyval \<Rightarrow> bool" where
  "truthy PNone = False"
| "truthy (PBool b) = b"
| "truthy (PInt i) = (i \<noteq> 0)"
| "truthy (PFloat x s) = (x \<noteq> 0)"
| "truthy (PStr s) = (s \<noteq> [])"

text \<open>\<^verbatim>\<open>v > 0\<close>: defined on numbers (a bool is an int), a TypeError on \<^verbatim>\<open>None\<close> and on a string.\<close>

fun py_gt0 :: "pyval \<Rightarrow> exn + bool" where
  "py_gt0 PNone = Inl TypeError"
| "py_gt0 (PBool b) = Inr b"
| "py_gt0 (PInt i) = Inr (0 < i)"
| "py_gt0 (PFloat x s) = Inr (0 < x)"
| "py_gt0 (PStr s) = Inl TypeError"

text \<open>\<^verbatim>\<open>mink is not None and mink > 0\<close>: the comparison runs only when the value is not \<^verbatim>\<open>None\<close>.\<close>

definition not_None_and_gt0 :: "pyval \<Rightarrow> exn + bool" where
  "not_None_and_gt0 v = (if v \<noteq> PNone then py_gt0 v else Inr False)"

text \<open>\<^verbatim>\<open>v and v > 0\<close> used as a condition: the comparison runs only when \<open>v\<close> is truthy.\<close>

definition truthy_and_gt0 :: "pyval \<Rightarrow> exn + bool" where
  "truthy_and_gt0 v = (if truthy v then py_gt0 v else Inr False)"

section \<open>The default parameters\<close>

text \<open>The dict \<^verbatim>\<open>_trim_defaults\<close>, in the order of the source.\<close>

definition trim_defaults :: "(string \<times> pyval) list" where
  "trim_defaults =
    [(''threads'', PInt 1),
     (''k'', PInt 27),
     (''ktrim'', PStr ''f''),
     (''mink'', PNone),
     (''qtrim'', PStr ''f''),
     (''trimq'', PFloat 6 ''6.0''),
     (''minlength'', PInt 10),
     (''tpe'', PBool False),
     (''tbo'', PBool False),
     (''minoverlap'', PInt 14),
     (''ref'', PNone),
     (''literal'', PNone),
     (''forcetrimleft'', PInt 0),
     (''forcetrimright'', PInt 0),
     (''kmask'', PNone),
     (''overwrite'', PBool True)]"

text \<open>\<^verbatim>\<open>_trim_defaults[key]\<close>; every key the source looks up is in the dict.\<close>

definition default_of :: "string \<Rightarrow> pyval" where
  "default_of key = (case map_of trim_defaults key of Some v \<Rightarrow> v | None \<Rightarrow> PNone)"

section \<open>The command builder\<close>

text \<open>
  The parameters of the two drivers, of the paired driver, and of the builder. The
  builder takes every driver parameter and six more, so the three records extend one
  another and share their field names with the source.
\<close>

record trim_single_params =
  k :: pyval
  ktrim :: pyval
  mink :: pyval
  qtrim :: pyval
  trimq :: pyval
  minlength :: pyval
  ref :: pyval
  literal :: pyval
  forcetrimleft :: pyval
  forcetrimright :: pyval
  kmask :: pyval
  threads :: pyval

record trim_paired_params = trim_single_params +
  tpe :: pyval
  tbo :: pyval
  minoverlap :: pyval

record bbduk_args = trim_paired_params +
  in1 :: pyval
  out1 :: pyval
  in2 :: pyval
  out2 :: pyval
  overwrite :: pyval
  stats_fp :: pyval

text \<open>
  \<^verbatim>\<open>_build_bbduk_cmd\<close>. The twelve core elements, then each conditional block in the
  order of the source. The three comparisons with \<^verbatim>\<open>0\<close> are evaluated where the source
  evaluates them; a TypeError leaves the function at once.
\<close>

definition core_cmd :: "bbduk_args \<Rightarrow> string list" where
  "core_cmd a =
    [''bbduk.sh'',
     ''in='' @ py_str (in1 a),
     ''out='' @ py_str (out1 a),
     ''k='' @ py_str (k a),
     ''ktrim='' @ py_str (ktrim a),
     ''qtrim='' @ py_str (qtrim a),
     ''trimq='' @ py_str (trimq a),
     ''minlength='' @ py_str (minlength a),
     ''threads='' @ py_str (threads a),
     ''overwrite='' @ (if truthy (overwrite a) then ''t'' else ''f''),
     ''ziplevel=2'',
     ''ordered=f'']"

definition pair_block :: "bbduk_args \<Rightarrow> string list" where
  "pair_block a =
    (if in2 a \<noteq> PNone \<and> out2 a \<noteq> PNone then
       [''in2='' @ py_str (in2 a), ''out2='' @ py_str (out2 a)]
       @ (if truthy (tpe a) then [''tpe=t''] else [])
       @ (if truthy (tbo a) then [''tbo=t'', ''minoverlap='' @ py_str (minoverlap a)] else [])
     else [])"

definition build_bbduk_cmd :: "bbduk_args \<Rightarrow> exn + string list" where
  "build_bbduk_cmd a =
    (let cmd = core_cmd a in
     (case not_None_and_gt0 (mink a) of
        Inl e \<Rightarrow> Inl e
      | Inr c_mink \<Rightarrow>
         (let cmd = cmd @ (if c_mink then [''mink='' @ py_str (mink a)] else []);
              cmd = cmd @ pair_block a;
              cmd = cmd @ (if truthy (ref a) then [''ref='' @ py_str (ref a)] else []);
              cmd = cmd @ (if truthy (literal a) then [''literal='' @ py_str (literal a)] else [])
          in
          (case truthy_and_gt0 (forcetrimleft a) of
             Inl e \<Rightarrow> Inl e
           | Inr c_left \<Rightarrow>
              (let cmd = cmd @ (if c_left then [''forcetrimleft='' @ py_str (forcetrimleft a)] else [])
               in
               (case truthy_and_gt0 (forcetrimright a) of
                  Inl e \<Rightarrow> Inl e
                | Inr c_right \<Rightarrow>
                   (let cmd = cmd @ (if c_right then [''forcetrimright='' @ py_str (forcetrimright a)] else []);
                        cmd = cmd @ (if truthy (kmask a) then [''kmask='' @ py_str (kmask a)] else []);
                        cmd = cmd @ (if truthy (stats_fp a) then [''stats='' @ py_str (stats_fp a)] else [])
                    in Inr cmd)))))))"

text \<open>
  Reading a command back: the values of the elements of the form \<open>name=value\<close>, in
  the order in which they occur.
\<close>

definition starts_with :: "string \<Rightarrow> string \<Rightarrow> bool" where
  "starts_with p s = (take (length p) s = p)"

definition flag_values :: "string \<Rightarrow> string list \<Rightarrow> string list" where
  "flag_values name cmd =
     map (drop (length name + 1)) (filter (starts_with (name @ ''='')) cmd)"

section \<open>Typed parameter assignments\<close>

text \<open>
  The types the annotations of the drivers and the registration give each parameter:
  paths and enumeration values are strings, counts are ints, the quality threshold is a
  float, the switches are bools, and the parameters whose default is \<^verbatim>\<open>None\<close> may be
  \<^verbatim>\<open>None\<close>.
\<close>

fun is_str :: "pyval \<Rightarrow> bool" where
  "is_str (PStr s) = True"
| "is_str v = False"

fun is_int :: "pyval \<Rightarrow> bool" where
  "is_int (PInt i) = True"
| "is_int v = False"

fun is_float :: "pyval \<Rightarrow> bool" where
  "is_float (PFloat x s) = True"
| "is_float v = False"

fun is_bool :: "pyval \<Rightarrow> bool" where
  "is_bool (PBool b) = True"
| "is_bool v = False"

definition opt_str :: "pyval \<Rightarrow> bool" where
  "opt_str v = (v = PNone \<or> is_str v)"

definition opt_int :: "pyval \<Rightarrow> bool" where
  "opt_int v = (v = PNone \<or> is_int v)"

definition typed_single :: "'a trim_single_params_scheme \<Rightarrow> bool" where
  "typed_single p =
     (is_int (k p) \<and> is_str (ktrim p) \<and> opt_int (mink p) \<and> is_str (qtrim p) \<and>
      is_float (trimq p) \<and> is_int (minlength p) \<and> opt_str (ref p) \<and> opt_str (literal p) \<and>
      is_int (forcetrimleft p) \<and> is_int (forcetrimright p) \<and> opt_str (kmask p) \<and>
      is_int (threads p))"

definition typed_paired :: "'a trim_paired_params_scheme \<Rightarrow> bool" where
  "typed_paired p =
     (typed_single p \<and> is_bool (tpe p) \<and> is_bool (tbo p) \<and> is_int (minoverlap p))"

definition well_typed :: "bbduk_args \<Rightarrow> bool" where
  "well_typed a =
     (typed_paired a \<and> is_str (in1 a) \<and> is_str (out1 a) \<and> opt_str (in2 a) \<and>
      opt_str (out2 a) \<and> is_bool (overwrite a) \<and> opt_str (stats_fp a))"

section \<open>Running the commands\<close>

text \<open>
  What \<^verbatim>\<open>run_commands\<close> does to the world is what it prints and which subprocesses it
  starts, in order. The outcome of a subprocess belongs to the environment: \<open>sub n cmd\<close>
  is the outcome of \<^verbatim>\<open>subprocess.run(cmd, check=True)\<close> when \<open>n\<close> subprocesses have been
  started before it. With \<^verbatim>\<open>check=True\<close> a non-zero return code is raised as
  CalledProcessError; a command that cannot be started raises OSError. The parameter
  \<^verbatim>\<open>verbose\<close> of the source is never read and is left out.
\<close>

datatype outcome = Exited int | Not_started

record world =
  stdout :: string
  invoked :: "string list list"

text \<open>\<^verbatim>\<open>' '.join(cmd)\<close>\<close>

fun join_sp :: "string list \<Rightarrow> string" where
  "join_sp [] = []"
| "join_sp [x] = x"
| "join_sp (x # y # zs) = x @ '' '' @ join_sp (y # zs)"

definition newline :: string where
  "newline = [CHR 0x0A]"

fun run_commands ::
  "(nat \<Rightarrow> string list \<Rightarrow> outcome) \<Rightarrow> string list list \<Rightarrow> world \<Rightarrow> (exn + unit) \<times> world" where
  "run_commands sub [] w = (Inr (), w)"
| "run_commands sub (cmd # cmds) w =
     (let w1 = w\<lparr>stdout := stdout w @ newline @ ''Command: '' @ join_sp cmd @ newline @ newline\<rparr>;
          w2 = w1\<lparr>invoked := invoked w1 @ [cmd]\<rparr>
      in (case sub (length (invoked w1)) cmd of
            Exited rc \<Rightarrow>
              if rc \<noteq> 0 then (Inl (CalledProcessError rc cmd), w2)
              else run_commands sub cmds w2
          | Not_started \<Rightarrow> (Inl OSError, w2)))"

section \<open>The drivers\<close>

text \<open>\<^verbatim>\<open>os.path.basename\<close>: what follows the last slash.\<close>

definition basename :: "string \<Rightarrow> string" where
  "basename p = rev (takeWhile (\<lambda>c. c \<noteq> CHR ''/'') (rev p))"

text \<open>
  \<^verbatim>\<open>str(Path(d) / name)\<close> for a directory given by its text \<open>d\<close> and a name without a
  slash, as both drivers use it: pathlib drops an empty name and the name \<^verbatim>\<open>.\<close>, and
  puts one slash between the directory and the name.
\<close>

definition path_join :: "string \<Rightarrow> string \<Rightarrow> string" where
  "path_join d name =
     (if name = [] \<or> name = ''.'' then d
      else if d = ''.'' then name
      else if d \<noteq> [] \<and> last d = CHR ''/'' then d @ name
      else d @ ''/'' @ name)"

text \<open>
  The keyword arguments \<^verbatim>\<open>trim_single\<close> passes to the builder for one manifest row; the
  parameters it does not pass keep the defaults of the builder's signature.
\<close>

definition single_args :: "string \<Rightarrow> string \<Rightarrow> 'a trim_single_params_scheme \<Rightarrow> string \<Rightarrow> bbduk_args" where
  "single_args outdir td p fwd =
     \<lparr>k = k p, ktrim = ktrim p, mink = mink p, qtrim = qtrim p, trimq = trimq p,
      minlength = minlength p, ref = ref p, literal = literal p,
      forcetrimleft = forcetrimleft p, forcetrimright = forcetrimright p,
      kmask = kmask p, threads = threads p,
      tpe = default_of ''tpe'', tbo = default_of ''tbo'', minoverlap = default_of ''minoverlap'',
      in1 = PStr fwd,
      out1 = PStr (path_join outdir (basename fwd)),
      in2 = PNone, out2 = PNone,
      overwrite = default_of ''overwrite'',
      stats_fp = PStr (path_join td (basename fwd @ ''.bbduk.stats.txt''))\<rparr>"

definition paired_args ::
  "string \<Rightarrow> string \<Rightarrow> 'a trim_paired_params_scheme \<Rightarrow> string \<Rightarrow> string \<Rightarrow> bbduk_args" where
  "paired_args outdir td p fwd rev_read =
     \<lparr>k = k p, ktrim = ktrim p, mink = mink p, qtrim = qtrim p, trimq = trimq p,
      minlength = minlength p, ref = ref p, literal = literal p,
      forcetrimleft = forcetrimleft p, forcetrimright = forcetrimright p,
      kmask = kmask p, threads = threads p,
      tpe = tpe p, tbo = tbo p, minoverlap = minoverlap p,
      in1 = PStr fwd,
      out1 = PStr (path_join outdir (basename fwd)),
      in2 = PStr rev_read,
      out2 = PStr (path_join outdir (basename rev_read)),
      overwrite = default_of ''overwrite'',
      stats_fp = PStr (path_join td (basename fwd @ ''.bbduk.stats.txt''))\<rparr>"

text \<open>
  The loops over \<^verbatim>\<open>df.itertuples()\<close>: a manifest row is the sample id followed by one or
  two read paths, and each row appends one command to \<open>cmds\<close>.
\<close>

fun single_loop ::
  "string \<Rightarrow> string \<Rightarrow> 'a trim_single_params_scheme \<Rightarrow> (string \<times> string) list \<Rightarrow>
   string list list \<Rightarrow> exn + string list list" where
  "single_loop outdir td p [] cmds = Inr cmds"
| "single_loop outdir td p ((sample_id, fwd) # rows) cmds =
     (case build_bbduk_cmd (single_args outdir td p fwd) of
        Inl e \<Rightarrow> Inl e
      | Inr cmd \<Rightarrow> single_loop outdir td p rows (cmds @ [cmd]))"

fun paired_loop ::
  "string \<Rightarrow> string \<Rightarrow> 'a trim_paired_params_scheme \<Rightarrow> (string \<times> string \<times> string) list \<Rightarrow>
   string list list \<Rightarrow> exn + string list list" where
  "paired_loop outdir td p [] cmds = Inr cmds"
| "paired_loop outdir td p ((sample_id, fwd, rev_read) # rows) cmds =
     (case build_bbduk_cmd (paired_args outdir td p fwd rev_read) of
        Inl e \<Rightarrow> Inl e
      | Inr cmd \<Rightarrow> paired_loop outdir td p rows (cmds @ [cmd]))"

text \<open>
  \<^verbatim>\<open>trim_single\<close> and \<^verbatim>\<open>trim_paired\<close>. The environment supplies \<open>outdir\<close>, the text of
  the path of the fresh output container, and \<open>td\<close>, the text of the path of the temporary
  directory; the manifest \<open>df\<close> is the table the input container yields. The result is
  the output container, named by its path, or the exception; the world records the
  subprocesses started. The files themselves (the reads the external tool writes, the
  statistics files that go away with the temporary directory) are not part of the model.
\<close>

definition trim_single ::
  "(nat \<Rightarrow> string list \<Rightarrow> outcome) \<Rightarrow> string \<Rightarrow> string \<Rightarrow> (string \<times> string) list \<Rightarrow>
   'a trim_single_params_scheme \<Rightarrow> world \<Rightarrow> (exn + string) \<times> world" where
  "trim_single sub outdir td df p w =
     (case single_loop outdir td p df [] of
        Inl e \<Rightarrow> (Inl e, w)
      | Inr cmds \<Rightarrow>
          (case run_commands sub cmds w of
             (Inl e, w') \<Rightarrow> (Inl e, w')
           | (Inr u, w') \<Rightarrow> (Inr outdir, w')))"

definition trim_paired ::
  "(nat \<Rightarrow> string list \<Rightarrow> outcome) \<Rightarrow> string \<Rightarrow> string \<Rightarrow> (string \<times> string \<times> string) list \<Rightarrow>
   'a trim_paired_params_scheme \<Rightarrow> world \<Rightarrow> (exn + string) \<times> world" where
  "trim_paired sub outdir td df p w =
     (case paired_loop outdir td p df [] of
        Inl e \<Rightarrow> (Inl e, w)
      | Inr cmds \<Rightarrow>
          (case run_commands sub cmds w of
             (Inl e, w') \<Rightarrow> (Inl e, w')
           | (Inr u, w') \<Rightarrow> (Inr outdir, w')))"

section \<open>The registration\<close>

text \<open>
  \<^verbatim>\<open>plugin_setup.py\<close> declares a semantic type for every parameter of the two
  operations: a primitive, possibly refined by a predicate (\<^verbatim>\<open>Int % Range(1, None)\<close>
  is \<open>Refined Int_prim (Range_pred (Some 1) None True False)\<close>).
  A range is written with its two bounds and its two inclusion switches; the source
  leaves the switches at the framework's defaults (start included, end excluded) except
  for \<^verbatim>\<open>trimq\<close>, where it spells the first one out.
\<close>

datatype primitive = Int_prim | Str | Float | Bool | Threads

datatype predicate =
    Range_pred "int option" "int option" bool bool
  | Choices "string list"

datatype semantic_type = Plain primitive | Refined primitive predicate

definition trim_single_parameters :: "(string \<times> semantic_type) list" where
  "trim_single_parameters =
    [(''k'', Refined Int_prim (Range_pred (Some 1) None True False)),
     (''ktrim'', Refined Str (Choices [''f'', ''r'', ''l''])),
     (''mink'', Refined Int_prim (Range_pred (Some 0) None True False)),
     (''qtrim'', Refined Str (Choices [''rl'', ''f'', ''r'', ''l'', ''w''])),
     (''trimq'', Refined Float (Range_pred (Some 0) None True False)),
     (''minlength'', Refined Int_prim (Range_pred (Some 1) None True False)),
     (''ref'', Plain Str),
     (''literal'', Plain Str),
     (''forcetrimleft'', Refined Int_prim (Range_pred (Some 0) None True False)),
     (''forcetrimright'', Refined Int_prim (Range_pred (Some 0) None True False)),
     (''kmask'', Plain Str),
     (''threads'', Plain Threads)]"

definition trim_paired_parameters :: "(string \<times> semantic_type) list" where
  "trim_paired_parameters =
    [(''k'', Refined Int_prim (Range_pred (Some 1) None True False)),
     (''ktrim'', Refined Str (Choices [''f'', ''r'', ''l''])),
     (''mink'', Refined Int_prim (Range_pred (Some 0) None True False)),
     (''qtrim'', Refined Str (Choices [''rl'', ''f'', ''r'', ''l'', ''w''])),
     (''trimq'', Refined Float (Range_pred (Some 0) None True False)),
     (''minlength'', Refined Int_prim (Range_pred (Some 1) None True False)),
     (''tpe'', Plain Bool),
     (''tbo'', Plain Bool),
     (''minoverlap'', Refined Int_prim (Range_pred (Some 1) None True False)),
     (''ref'', Plain Str),
     (''literal'', Plain Str),
     (''forcetrimleft'', Refined Int_prim (Range_pred (Some 0) None True False)),
     (''forcetrimright'', Refined Int_prim (Range_pred (Some 0) None True False)),
     (''kmask'', Plain Str),
     (''threads'', Plain Threads)]"

text \<open>
  Modelled from the spec: the host framework's parameter validation, which is not part
  of this repository. Section 4.3 of the spec says that the declared constraints
  (enumerations, numeric ranges) are enforced before the driver functions are ever
  invoked and that a value failing them is rejected prior to any subprocess
  construction. A range admits the numbers between its bounds, a bound being included
  as its switch says; an enumeration admits its members. The framework's own rule for a
  thread count, which the spec only names, is the parameter \<open>threads_ok\<close>.
\<close>

definition in_range :: "int option \<Rightarrow> int option \<Rightarrow> bool \<Rightarrow> bool \<Rightarrow> real \<Rightarrow> bool" where
  "in_range lo hi incl_start incl_end x =
     ((case lo of None \<Rightarrow> True
       | Some a \<Rightarrow> if incl_start then of_int a \<le> x else of_int a < x) \<and>
      (case hi of None \<Rightarrow> True
       | Some b \<Rightarrow> if incl_end then x \<le> of_int b else x < of_int b))"

fun satisfies :: "predicate \<Rightarrow> pyval \<Rightarrow> bool" where
  "satisfies (Range_pred lo hi incl_start incl_end) (PInt i) =
     in_range lo hi incl_start incl_end (of_int i)"
| "satisfies (Range_pred lo hi incl_start incl_end) (PFloat x s) =
     in_range lo hi incl_start incl_end x"
| "satisfies (Choices cs) (PStr s) = (s \<in> set cs)"
| "satisfies pr v = False"

fun of_primitive :: "(pyval \<Rightarrow> bool) \<Rightarrow> primitive \<Rightarrow> pyval \<Rightarrow> bool" where
  "of_primitive threads_ok Int_prim v = is_int v"
| "of_primitive threads_ok Str v = is_str v"
| "of_primitive threads_ok Float v = is_float v"
| "of_primitive threads_ok Bool v = is_bool v"
| "of_primitive threads_ok Threads v = threads_ok v"

fun admits :: "(pyval \<Rightarrow> bool) \<Rightarrow> semantic_type \<Rightarrow> pyval \<Rightarrow> bool" where
  "admits threads_ok (Plain t) v = of_primitive threads_ok t v"
| "admits threads_ok (Refined t pr) v = (of_primitive threads_ok t v \<and> satisfies pr v)"

text \<open>
  Modelled from the spec: the framework's gate in front of a registered function. The
  caller supplies some parameters by name; each must be declared and admitted by its
  declared type, or the call is rejected and the driver does not run. A parameter the
  caller leaves out takes the default of the driver's signature.
\<close>

datatype failure = Rejected | Raised exn

definition validate ::
  "(pyval \<Rightarrow> bool) \<Rightarrow> (string \<times> semantic_type) list \<Rightarrow> (string \<times> pyval) list \<Rightarrow> bool" where
  "validate threads_ok decls supplied =
     list_all (\<lambda>(name, v). case map_of decls name of
                              None \<Rightarrow> False
                            | Some t \<Rightarrow> admits threads_ok t v) supplied"

definition arg :: "(string \<times> pyval) list \<Rightarrow> string \<Rightarrow> pyval" where
  "arg supplied name =
     (case map_of supplied name of Some v \<Rightarrow> v | None \<Rightarrow> default_of name)"

definition bind_single :: "(string \<times> pyval) list \<Rightarrow> trim_single_params" where
  "bind_single supplied =
     \<lparr>k = arg supplied ''k'', ktrim = arg supplied ''ktrim'', mink = arg supplied ''mink'',
      qtrim = arg supplied ''qtrim'', trimq = arg supplied ''trimq'',
      minlength = arg supplied ''minlength'', ref = arg supplied ''ref'',
      literal = arg supplied ''literal'', forcetrimleft = arg supplied ''forcetrimleft'',
      forcetrimright = arg supplied ''forcetrimright'', kmask = arg supplied ''kmask'',
      threads = arg supplied ''threads''\<rparr>"

definition bind_paired :: "(string \<times> pyval) list \<Rightarrow> trim_paired_params" where
  "bind_paired supplied =
     \<lparr>k = arg supplied ''k'', ktrim = arg supplied ''ktrim'', mink = arg supplied ''mink'',
      qtrim = arg supplied ''qtrim'', trimq = arg supplied ''trimq'',
      minlength = arg supplied ''minlength'', ref = arg supplied ''ref'',
      literal = arg supplied ''literal'', forcetrimleft = arg supplied ''forcetrimleft'',
      forcetrimright = arg supplied ''forcetrimright'', kmask = arg supplied ''kmask'',
      threads = arg supplied ''threads'', tpe = arg supplied ''tpe'', tbo = arg supplied ''tbo'',
      minoverlap = arg supplied ''minoverlap''\<rparr>"

definition raised :: "(exn + string) \<times> world \<Rightarrow> (failure + string) \<times> world" where
  "raised r = (case r of (Inl e, w) \<Rightarrow> (Inl (Raised e), w) | (Inr c, w) \<Rightarrow> (Inr c, w))"

definition call_trim_single ::
  "(pyval \<Rightarrow> bool) \<Rightarrow> (nat \<Rightarrow> string list \<Rightarrow> outcome) \<Rightarrow> string \<Rightarrow> string \<Rightarrow>
   (string \<times> string) list \<Rightarrow> (string \<times> pyval) list \<Rightarrow> world \<Rightarrow> (failure + string) \<times> world" where
  "call_trim_single threads_ok sub outdir td df supplied w =
     (if validate threads_ok trim_single_parameters supplied
      then raised (trim_single sub outdir td df (bind_single supplied) w)
      else (Inl Rejected, w))"

definition call_trim_paired ::
  "(pyval \<Rightarrow> bool) \<Rightarrow> (nat \<Rightarrow> string list \<Rightarrow> outcome) \<Rightarrow> string \<Rightarrow> string \<Rightarrow>
   (string \<times> string \<times> string) list \<Rightarrow> (string \<times> pyval) list \<Rightarrow> world \<Rightarrow>
   (failure + string) \<times> world" where
  "call_trim_paired threads_ok sub outdir td df supplied w =
     (if validate threads_ok trim_paired_parameters supplied
      then raised (trim_paired sub outdir td df (bind_paired supplied) w)
      else (Inl Rejected, w))"

section \<open>The constraints as the specification lists them\<close>

text \<open>
  The spec's reading of the registration, parameter by parameter: ktrim is one of three
  values and qtrim one of five; k, minlength and minoverlap are at least 1; mink,
  forcetrimleft and forcetrimright are at least 0; trimq is at least 0. The other
  parameters carry no constraint of this kind. The declarations of the source are
  compared with it below.
\<close>

definition claimed_constraint :: "string \<Rightarrow> pyval \<Rightarrow> bool" where
  "claimed_constraint name v =
     (if name = ''ktrim'' then (case v of PStr s \<Rightarrow> s \<in> {''f'', ''r'', ''l''} | _ \<Rightarrow> False)
      else if name = ''qtrim'' then
        (case v of PStr s \<Rightarrow> s \<in> {''rl'', ''f'', ''r'', ''l'', ''w''} | _ \<Rightarrow> False)
      else if name \<in> {''k'', ''minlength'', ''minoverlap''} then
        (case v of PInt i \<Rightarrow> 1 \<le> i | _ \<Rightarrow> False)
      else if name \<in> {''mink'', ''forcetrimleft'', ''forcetrimright''} then
        (case v of PInt i \<Rightarrow> 0 \<le> i | _ \<Rightarrow> False)
      else if name = ''trimq'' then (case v of PFloat x s \<Rightarrow> 0 \<le> x | _ \<Rightarrow> False)
      else True)"

section \<open>Expected flag values\<close>

text \<open>
  The values a conditional flag is expected to carry, read off the parameter alone: the
  decimal text of a positive int and nothing otherwise; a non-empty string and nothing
  otherwise.
\<close>

definition when_positive :: "pyval \<Rightarrow> string list" where
  "when_positive v = (case v of PInt i \<Rightarrow> if 0 < i then [str_int i] else [] | _ \<Rightarrow> [])"

definition when_nonempty :: "pyval \<Rightarrow> string list" where
  "when_nonempty v = (case v of PStr s \<Rightarrow> if s \<noteq> [] then [s] else [] | _ \<Rightarrow> [])"

section \<open>Concrete inputs\<close>

text \<open>The inputs at which the theorems below are instantiated.\<close>

definition paired_example :: bbduk_args where
  "paired_example =
     \<lparr>k = PInt 27, ktrim = PStr ''r'', mink = PInt 5, qtrim = PStr ''rl'',
      trimq = PFloat 6 ''6.0'', minlength = PInt 10, ref = PStr ''adapters'', literal = PNone,
      forcetrimleft = PInt 0, forcetrimright = PInt 3, kmask = PNone, threads = PInt 4,
      tpe = PBool True, tbo = PBool True, minoverlap = PInt 14,
      in1 = PStr ''/d/a_R1.fq'', out1 = PStr ''/o/a_R1.fq'',
      in2 = PStr ''/d/a_R2.fq'', out2 = PStr ''/o/a_R2.fq'',
      overwrite = PBool True, stats_fp = PStr ''/t/a.txt''\<rparr>"

definition single_example :: bbduk_args where
  "single_example =
     \<lparr>k = PInt 27, ktrim = PStr ''f'', mink = PInt 0, qtrim = PStr ''f'',
      trimq = PFloat 6 ''6.0'', minlength = PInt 10, ref = PNone, literal = PNone,
      forcetrimleft = PInt 0, forcetrimright = PInt 0, kmask = PNone, threads = PInt 1,
      tpe = PBool True, tbo = PBool True, minoverlap = PInt 14,
      in1 = PStr ''/d/a.fq'', out1 = PStr ''/o/a.fq'', in2 = PNone, out2 = PNone,
      overwrite = PBool False, stats_fp = PNone\<rparr>"

text \<open>The commands the builder makes of the two assignments above.\<close>

definition paired_example_cmd :: "string list" where
  "paired_example_cmd =
     [''bbduk.sh'', ''in=/d/a_R1.fq'', ''out=/o/a_R1.fq'', ''k=27'', ''ktrim=r'', ''qtrim=rl'',
      ''trimq=6.0'', ''minlength=10'', ''threads=4'', ''overwrite=t'', ''ziplevel=2'',
      ''ordered=f'', ''mink=5'', ''in2=/d/a_R2.fq'', ''out2=/o/a_R2.fq'', ''tpe=t'', ''tbo=t'',
      ''minoverlap=14'', ''ref=adapters'', ''forcetrimright=3'', ''stats=/t/a.txt'']"

definition single_example_cmd :: "string list" where
  "single_example_cmd =
     [''bbduk.sh'', ''in=/d/a.fq'', ''out=/o/a.fq'', ''k=27'', ''ktrim=f'', ''qtrim=f'',
      ''trimq=6.0'', ''minlength=10'', ''threads=1'', ''overwrite=f'', ''ziplevel=2'',
      ''ordered=f'']"



definition default_single :: trim_single_params where
  "default_single = bind_single []"

definition default_paired :: trim_paired_params where
  "default_paired = bind_paired []"

definition overlap_paired :: trim_paired_params where
  "overlap_paired = default_paired\<lparr>tbo := PBool True\<rparr>"

definition manifest2 :: "(string \<times> string) list" where
  "manifest2 = [(''s1'', ''/in/s1.fq''), (''s2'', ''/in/s2.fq'')]"

definition same_name_manifest :: "(string \<times> string) list" where
  "same_name_manifest = [(''s1'', ''/a/x.fq''), (''s2'', ''/b/x.fq'')]"

definition paired_manifest2 :: "(string \<times> string \<times> string) list" where
  "paired_manifest2 =
     [(''s1'', ''/in/s1_R1.fq'', ''/in/s1_R2.fq''), (''s2'', ''/in/s2_R1.fq'', ''/in/s2_R2.fq'')]"

definition same_name_pair :: "(string \<times> string \<times> string) list" where
  "same_name_pair = [(''s1'', ''/fwd/s1.fq'', ''/rev/s1.fq'')]"

definition all_exit_zero :: "nat \<Rightarrow> string list \<Rightarrow> outcome" where
  "all_exit_zero n cmd = Exited 0"

definition third_fails :: "nat \<Rightarrow> string list \<Rightarrow> outcome" where
  "third_fails n cmd = (if n = 2 then Exited 1 else Exited 0)"


definition quiet :: world where
  "quiet = \<lparr>stdout = [], invoked = []\<rparr>"

text \<open>
  The two commands \<^verbatim>\<open>trim_single\<close> builds for \<open>manifest2\<close> with every parameter at its
  default, the output container at \<^verbatim>\<open>/out\<close> and the temporary directory at \<^verbatim>\<open>/tmp/td\<close>.
\<close>

definition s1_cmd :: "string list" where
  "s1_cmd =
     [''bbduk.sh'', ''in=/in/s1.fq'', ''out=/out/s1.fq'', ''k=27'', ''ktrim=f'', ''qtrim=f'',
      ''trimq=6.0'', ''minlength=10'', ''threads=1'', ''overwrite=t'', ''ziplevel=2'',
      ''ordered=f'', ''stats=/tmp/td/s1.fq.bbduk.stats.txt'']"

definition s2_cmd :: "string list" where
  "s2_cmd =
     [''bbduk.sh'', ''in=/in/s2.fq'', ''out=/out/s2.fq'', ''k=27'', ''ktrim=f'', ''qtrim=f'',
      ''trimq=6.0'', ''minlength=10'', ''threads=1'', ''overwrite=t'', ''ziplevel=2'',
      ''ordered=f'', ''stats=/tmp/td/s2.fq.bbduk.stats.txt'']"

text \<open>
  The two commands \<^verbatim>\<open>trim_paired\<close> builds for \<open>paired_manifest2\<close> with overlap trimming
  switched on and every other parameter at its default.
\<close>

definition p1_cmd :: "string list" where
  "p1_cmd =
     [''bbduk.sh'', ''in=/in/s1_R1.fq'', ''out=/out/s1_R1.fq'', ''k=27'', ''ktrim=f'',
      ''qtrim=f'', ''trimq=6.0'', ''minlength=10'', ''threads=1'', ''overwrite=t'',
      ''ziplevel=2'', ''ordered=f'', ''in2=/in/s1_R2.fq'', ''out2=/out/s1_R2.fq'', ''tbo=t'',
      ''minoverlap=14'', ''stats=/tmp/td/s1_R1.fq.bbduk.stats.txt'']"

definition p2_cmd :: "string list" where
  "p2_cmd =
     [''bbduk.sh'', ''in=/in/s2_R1.fq'', ''out=/out/s2_R1.fq'', ''k=27'', ''ktrim=f'',
      ''qtrim=f'', ''trimq=6.0'', ''minlength=10'', ''threads=1'', ''overwrite=t'',
      ''ziplevel=2'', ''ordered=f'', ''in2=/in/s2_R2.fq'', ''out2=/out/s2_R2.fq'', ''tbo=t'',
      ''minoverlap=14'', ''stats=/tmp/td/s2_R1.fq.bbduk.stats.txt'']"

text \<open>A batch of five commands.\<close>

definition five_cmds :: "string list list" where
  "five_cmds =
     [[''bbduk.sh'', ''in=/in/s1.fq'', ''out=/out/s1.fq''],
      [''bbduk.sh'', ''in=/in/s2.fq'', ''out=/out/s2.fq''],
      [''bbduk.sh'', ''in=/in/s3.fq'', ''out=/out/s3.fq''],
      [''bbduk.sh'', ''in=/in/s4.fq'', ''out=/out/s4.fq''],
      [''bbduk.sh'', ''in=/in/s5.fq'', ''out=/out/s5.fq'']]"

section \<open>Properties of the command builder\<close>

subsection \<open>Reading flags, and the shape of a built command\<close>

lemma flag_values_Nil [simp]: "flag_values name [] = []"
  by (simp add: flag_values_def)

lemma flag_values_append [simp]:
  "flag_values name (xs @ ys) = flag_values name xs @ flag_values name ys"
  by (simp add: flag_values_def)

lemma not_None_and_gt0_typed:
  "opt_int v \<Longrightarrow> not_None_and_gt0 v = Inr (case v of PInt i \<Rightarrow> 0 < i | _ \<Rightarrow> False)"
  by (cases v) (simp_all add: not_None_and_gt0_def opt_int_def)

lemma truthy_and_gt0_typed:
  "is_int v \<Longrightarrow> truthy_and_gt0 v = Inr (case v of PInt i \<Rightarrow> 0 < i | _ \<Rightarrow> False)"
  by (cases v) (auto simp add: truthy_and_gt0_def)

text \<open>When none of the three comparisons raises, the command is the concatenation of its blocks.\<close>

lemma build_Inr:
  assumes "not_None_and_gt0 (mink a) = Inr c1"
      and "truthy_and_gt0 (forcetrimleft a) = Inr c2"
      and "truthy_and_gt0 (forcetrimright a) = Inr c3"
  shows "build_bbduk_cmd a = Inr
     (core_cmd a
      @ (if c1 then [''mink='' @ py_str (mink a)] else [])
      @ pair_block a
      @ (if truthy (ref a) then [''ref='' @ py_str (ref a)] else [])
      @ (if truthy (literal a) then [''literal='' @ py_str (literal a)] else [])
      @ (if c2 then [''forcetrimleft='' @ py_str (forcetrimleft a)] else [])
      @ (if c3 then [''forcetrimright='' @ py_str (forcetrimright a)] else [])
      @ (if truthy (kmask a) then [''kmask='' @ py_str (kmask a)] else [])
      @ (if truthy (stats_fp a) then [''stats='' @ py_str (stats_fp a)] else []))"
  using assms by (simp add: build_bbduk_cmd_def Let_def)

lemma well_typedD:
  assumes "well_typed a"
  shows "opt_int (mink a)" "is_int (forcetrimleft a)" "is_int (forcetrimright a)"
    "opt_str (ref a)" "opt_str (literal a)" "opt_str (kmask a)" "opt_str (stats_fp a)"
  using assms by (simp_all add: well_typed_def typed_paired_def typed_single_def)

lemma build_typed:
  assumes "well_typed a"
  shows "build_bbduk_cmd a = Inr
     (core_cmd a
      @ (if (case mink a of PInt i \<Rightarrow> 0 < i | _ \<Rightarrow> False) then [''mink='' @ py_str (mink a)] else [])
      @ pair_block a
      @ (if truthy (ref a) then [''ref='' @ py_str (ref a)] else [])
      @ (if truthy (literal a) then [''literal='' @ py_str (literal a)] else [])
      @ (if (case forcetrimleft a of PInt i \<Rightarrow> 0 < i | _ \<Rightarrow> False)
         then [''forcetrimleft='' @ py_str (forcetrimleft a)] else [])
      @ (if (case forcetrimright a of PInt i \<Rightarrow> 0 < i | _ \<Rightarrow> False)
         then [''forcetrimright='' @ py_str (forcetrimright a)] else [])
      @ (if truthy (kmask a) then [''kmask='' @ py_str (kmask a)] else [])
      @ (if truthy (stats_fp a) then [''stats='' @ py_str (stats_fp a)] else []))"
  by (rule build_Inr)
     (simp_all add: not_None_and_gt0_typed truthy_and_gt0_typed well_typedD [OF assms])

lemma build_returns:
  assumes "well_typed a"
  shows "\<exists>cmd. build_bbduk_cmd a = Inr cmd"
  using build_typed [OF assms] by blast



lemmas flag_simps = flag_values_def starts_with_def core_cmd_def pair_block_def

lemmas eval_simps =
  build_bbduk_cmd_def core_cmd_def pair_block_def not_None_and_gt0_def truthy_and_gt0_def
  Let_def str_int_def digits.simps digit_def flag_values_def starts_with_def
  when_positive_def when_nonempty_def well_typed_def typed_paired_def typed_single_def
  opt_str_def opt_int_def



text \<open>Every command that is built has this shape, typed assignment or not.\<close>

lemma build_shape:
  assumes "build_bbduk_cmd a = Inr cmd"
  shows "\<exists>c1 c2 c3. cmd =
      core_cmd a
      @ (if c1 then [''mink='' @ py_str (mink a)] else [])
      @ pair_block a
      @ (if truthy (ref a) then [''ref='' @ py_str (ref a)] else [])
      @ (if truthy (literal a) then [''literal='' @ py_str (literal a)] else [])
      @ (if c2 then [''forcetrimleft='' @ py_str (forcetrimleft a)] else [])
      @ (if c3 then [''forcetrimright='' @ py_str (forcetrimright a)] else [])
      @ (if truthy (kmask a) then [''kmask='' @ py_str (kmask a)] else [])
      @ (if truthy (stats_fp a) then [''stats='' @ py_str (stats_fp a)] else [])"
proof -
  from assms obtain c1 c2 c3 where
    "not_None_and_gt0 (mink a) = Inr c1" "truthy_and_gt0 (forcetrimleft a) = Inr c2"
    "truthy_and_gt0 (forcetrimright a) = Inr c3"
    by (auto simp add: build_bbduk_cmd_def Let_def split: sum.splits)
  from build_Inr [OF this] assms show ?thesis
    by (intro exI [of _ c1] exI [of _ c2] exI [of _ c3]) simp
qed

lemma core_values:
  assumes "build_bbduk_cmd a = Inr cmd"
  shows "take 12 cmd = core_cmd a"
    and "count_list cmd ''bbduk.sh'' = 1"
    and "flag_values ''in'' cmd = [py_str (in1 a)]"
    and "flag_values ''out'' cmd = [py_str (out1 a)]"
    and "flag_values ''k'' cmd = [py_str (k a)]"
    and "flag_values ''ktrim'' cmd = [py_str (ktrim a)]"
    and "flag_values ''qtrim'' cmd = [py_str (qtrim a)]"
    and "flag_values ''trimq'' cmd = [py_str (trimq a)]"
    and "flag_values ''minlength'' cmd = [py_str (minlength a)]"
    and "flag_values ''threads'' cmd = [py_str (threads a)]"
    and "flag_values ''overwrite'' cmd = [if truthy (overwrite a) then ''t'' else ''f'']"
    and "flag_values ''ziplevel'' cmd = [''2'']"
    and "flag_values ''ordered'' cmd = [''f'']"
    and "''overwrite='' @ (if truthy (overwrite a) then ''t'' else ''f'') \<in> set cmd"
  using build_shape [OF assms]
  by (auto simp add: flag_simps)

lemma pair_values:
  assumes "build_bbduk_cmd a = Inr cmd"
  shows "flag_values ''in2'' cmd =
           (if in2 a \<noteq> PNone \<and> out2 a \<noteq> PNone then [py_str (in2 a)] else [])"
    and "flag_values ''out2'' cmd =
           (if in2 a \<noteq> PNone \<and> out2 a \<noteq> PNone then [py_str (out2 a)] else [])"
    and "flag_values ''tpe'' cmd =
           (if in2 a \<noteq> PNone \<and> out2 a \<noteq> PNone \<and> truthy (tpe a) then [''t''] else [])"
    and "flag_values ''tbo'' cmd =
           (if in2 a \<noteq> PNone \<and> out2 a \<noteq> PNone \<and> truthy (tbo a) then [''t''] else [])"
    and "flag_values ''minoverlap'' cmd =
           (if in2 a \<noteq> PNone \<and> out2 a \<noteq> PNone \<and> truthy (tbo a)
            then [py_str (minoverlap a)] else [])"
  using build_shape [OF assms]
  by (auto simp add: flag_simps)

lemma well_typed_paired_example: "well_typed paired_example"
  by (simp add: paired_example_def well_typed_def typed_paired_def typed_single_def
      opt_str_def opt_int_def)

lemma well_typed_single_example: "well_typed single_example"
  by (simp add: single_example_def well_typed_def typed_paired_def typed_single_def
      opt_str_def opt_int_def)


lemma paired_example_builds: "build_bbduk_cmd paired_example = Inr paired_example_cmd"
  by (simp add: paired_example_def paired_example_cmd_def eval_simps)

lemma single_example_builds: "build_bbduk_cmd single_example = Inr single_example_cmd"
  by (simp add: single_example_def single_example_cmd_def eval_simps)

subsection \<open>Totality\<close>



text \<open>
  The typing matters: the guards protect \<^verbatim>\<open>None\<close> and nothing else, so a string where
  an int is expected reaches the comparison and raises.
\<close>

lemma ill_typed_raises:
  "build_bbduk_cmd (single_example\<lparr>mink := PStr ''5''\<rparr>) = Inl TypeError"
  "build_bbduk_cmd (single_example\<lparr>forcetrimleft := PStr ''5''\<rparr>) = Inl TypeError"
  "build_bbduk_cmd (single_example\<lparr>forcetrimright := PStr ''5''\<rparr>) = Inl TypeError"
  by (simp_all add: single_example_def eval_simps)

subsection \<open>The unconditional elements\<close>

text \<open>
  Claim C2. Every command the builder returns, whatever the parameters are, starts with
  the binary name \<^verbatim>\<open>bbduk.sh\<close> followed by in=, out=, k=, ktrim=, qtrim=, trimq=,
  minlength=, threads=, overwrite= (\<^verbatim>\<open>t\<close> or \<^verbatim>\<open>f\<close>), \<^verbatim>\<open>ziplevel=2\<close> and
  \<^verbatim>\<open>ordered=f\<close>, in that order, and each of these twelve occurs exactly once in the whole
  command. On a typed assignment the builder does return a command.
\<close>

theorem unconditional_flags:
  "(build_bbduk_cmd a = Inr cmd \<longrightarrow>
      take 12 cmd =
        [''bbduk.sh'',
         ''in='' @ py_str (in1 a),
         ''out='' @ py_str (out1 a),
         ''k='' @ py_str (k a),
         ''ktrim='' @ py_str (ktrim a),
         ''qtrim='' @ py_str (qtrim a),
         ''trimq='' @ py_str (trimq a),
         ''minlength='' @ py_str (minlength a),
         ''threads='' @ py_str (threads a),
         ''overwrite='' @ (if truthy (overwrite a) then ''t'' else ''f''),
         ''ziplevel=2'',
         ''ordered=f''] \<and>
      count_list cmd ''bbduk.sh'' = 1 \<and>
      flag_values ''in'' cmd = [py_str (in1 a)] \<and>
      flag_values ''out'' cmd = [py_str (out1 a)] \<and>
      flag_values ''k'' cmd = [py_str (k a)] \<and>
      flag_values ''ktrim'' cmd = [py_str (ktrim a)] \<and>
      flag_values ''qtrim'' cmd = [py_str (qtrim a)] \<and>
      flag_values ''trimq'' cmd = [py_str (trimq a)] \<and>
      flag_values ''minlength'' cmd = [py_str (minlength a)] \<and>
      flag_values ''threads'' cmd = [py_str (threads a)] \<and>
      flag_values ''overwrite'' cmd = [if truthy (overwrite a) then ''t'' else ''f''] \<and>
      flag_values ''ziplevel'' cmd = [''2''] \<and>
      flag_values ''ordered'' cmd = [''f'']) \<and>
   (well_typed a \<longrightarrow> (\<exists>c. build_bbduk_cmd a = Inr c))"
proof (intro conjI impI)
  assume b: "build_bbduk_cmd a = Inr cmd"
  have "take 12 cmd = core_cmd a"
    by (rule core_values(1) [OF b])
  then show "take 12 cmd =
        [''bbduk.sh'',
         ''in='' @ py_str (in1 a),
         ''out='' @ py_str (out1 a),
         ''k='' @ py_str (k a),
         ''ktrim='' @ py_str (ktrim a),
         ''qtrim='' @ py_str (qtrim a),
         ''trimq='' @ py_str (trimq a),
         ''minlength='' @ py_str (minlength a),
         ''threads='' @ py_str (threads a),
         ''overwrite='' @ (if truthy (overwrite a) then ''t'' else ''f''),
         ''ziplevel=2'',
         ''ordered=f'']"
    by (simp add: core_cmd_def)
  show "count_list cmd ''bbduk.sh'' = 1"
    and "flag_values ''in'' cmd = [py_str (in1 a)]"
    and "flag_values ''out'' cmd = [py_str (out1 a)]"
    and "flag_values ''k'' cmd = [py_str (k a)]"
    and "flag_values ''ktrim'' cmd = [py_str (ktrim a)]"
    and "flag_values ''qtrim'' cmd = [py_str (qtrim a)]"
    and "flag_values ''trimq'' cmd = [py_str (trimq a)]"
    and "flag_values ''minlength'' cmd = [py_str (minlength a)]"
    and "flag_values ''threads'' cmd = [py_str (threads a)]"
    and "flag_values ''overwrite'' cmd = [if truthy (overwrite a) then ''t'' else ''f'']"
    and "flag_values ''ziplevel'' cmd = [''2'']"
    and "flag_values ''ordered'' cmd = [''f'']"
    by (rule core_values [OF b])+
next
  assume "well_typed a"
  then show "\<exists>c. build_bbduk_cmd a = Inr c"
    by (rule build_returns)
qed

theorem unconditional_flags_witness:
  "well_typed paired_example \<and>
   build_bbduk_cmd paired_example = Inr paired_example_cmd \<and>
   take 12 paired_example_cmd =
     [''bbduk.sh'', ''in=/d/a_R1.fq'', ''out=/o/a_R1.fq'', ''k=27'', ''ktrim=r'',
      ''qtrim=rl'', ''trimq=6.0'', ''minlength=10'', ''threads=4'', ''overwrite=t'',
      ''ziplevel=2'', ''ordered=f''] \<and>
   count_list paired_example_cmd ''bbduk.sh'' = 1 \<and>
   flag_values ''in'' paired_example_cmd = [''/d/a_R1.fq''] \<and>
   flag_values ''out'' paired_example_cmd = [''/o/a_R1.fq''] \<and>
   flag_values ''k'' paired_example_cmd = [''27''] \<and>
   flag_values ''ktrim'' paired_example_cmd = [''r''] \<and>
   flag_values ''qtrim'' paired_example_cmd = [''rl''] \<and>
   flag_values ''trimq'' paired_example_cmd = [''6.0''] \<and>
   flag_values ''minlength'' paired_example_cmd = [''10''] \<and>
   flag_values ''threads'' paired_example_cmd = [''4''] \<and>
   flag_values ''overwrite'' paired_example_cmd = [''t''] \<and>
   flag_values ''ziplevel'' paired_example_cmd = [''2''] \<and>
   flag_values ''ordered'' paired_example_cmd = [''f'']"
  using unconditional_flags [of paired_example paired_example_cmd]
    paired_example_builds well_typed_paired_example
  by (simp add: paired_example_def str_int_def digits.simps digit_def)

subsection \<open>The conditional flags\<close>




text \<open>The two values of mink the spec names: 0 leaves the flag out, 5 gives mink=5.\<close>

lemma mink_examples:
  "mink single_example = PInt 0"
  "build_bbduk_cmd single_example = Inr single_example_cmd"
  "build_bbduk_cmd (single_example\<lparr>mink := PInt 5\<rparr>) = Inr (single_example_cmd @ [''mink=5''])"
  by (simp_all add: single_example_def single_example_cmd_def eval_simps)

subsection \<open>The pair flags\<close>

text \<open>
  Claim C5. The builder appends in2=, out2= and the pair-aware flags tpe, tbo and
  minoverlap only if a reverse read path is supplied: a command built without a reverse
  read contains none of the five, whatever tpe and tbo are; so a command that contains
  one of them was built with a reverse read. On a typed assignment the builder does
  return a command.
\<close>

theorem pair_flags_need_reverse_read:
  "(build_bbduk_cmd a = Inr cmd \<and> in2 a = PNone \<longrightarrow>
      flag_values ''in2'' cmd = [] \<and>
      flag_values ''out2'' cmd = [] \<and>
      flag_values ''tpe'' cmd = [] \<and>
      flag_values ''tbo'' cmd = [] \<and>
      flag_values ''minoverlap'' cmd = []) \<and>
   (well_typed a \<longrightarrow> (\<exists>c. build_bbduk_cmd a = Inr c))"
proof (intro conjI impI)
  assume "build_bbduk_cmd a = Inr cmd \<and> in2 a = PNone"
  then have b: "build_bbduk_cmd a = Inr cmd" and n: "in2 a = PNone"
    by simp_all
  from pair_values [OF b] n
  show "flag_values ''in2'' cmd = []"
    and "flag_values ''out2'' cmd = []"
    and "flag_values ''tpe'' cmd = []"
    and "flag_values ''tbo'' cmd = []"
    and "flag_values ''minoverlap'' cmd = []"
    by simp_all
next
  assume "well_typed a"
  then show "\<exists>c. build_bbduk_cmd a = Inr c"
    by (rule build_returns)
qed

theorem pair_flags_need_reverse_read_witness:
  "well_typed single_example \<and>
   build_bbduk_cmd single_example = Inr single_example_cmd \<and>
   in2 single_example = PNone \<and>
   truthy (tpe single_example) \<and> truthy (tbo single_example) \<and>
   flag_values ''in2'' single_example_cmd = [] \<and>
   flag_values ''out2'' single_example_cmd = [] \<and>
   flag_values ''tpe'' single_example_cmd = [] \<and>
   flag_values ''tbo'' single_example_cmd = [] \<and>
   flag_values ''minoverlap'' single_example_cmd = []"
proof -
  have n: "in2 single_example = PNone"
    by (simp add: single_example_def)
  have "truthy (tpe single_example)" and "truthy (tbo single_example)"
    by (simp_all add: single_example_def)
  then show ?thesis
    using pair_flags_need_reverse_read [of single_example single_example_cmd]
      single_example_builds well_typed_single_example n by simp
qed

section \<open>Properties of the drivers\<close>

subsection \<open>The loops and the batch\<close>

lemma default_values:
  "default_of ''tpe'' = PBool False" "default_of ''tbo'' = PBool False"
  "default_of ''minoverlap'' = PInt 14" "default_of ''overwrite'' = PBool True"
  by (simp_all add: default_of_def trim_defaults_def)

lemma well_typed_single_args:
  "typed_single p \<Longrightarrow> well_typed (single_args outdir td p fwd)"
  by (simp add: well_typed_def typed_paired_def typed_single_def single_args_def
      default_values opt_str_def)

lemma well_typed_paired_args:
  "typed_paired p \<Longrightarrow> well_typed (paired_args outdir td p fwd rev_read)"
  by (simp add: well_typed_def typed_paired_def typed_single_def paired_args_def
      default_values opt_str_def)

lemma single_loop_Inr:
  "single_loop outdir td p df cmds = Inr res \<Longrightarrow>
   \<exists>cs. res = cmds @ cs \<and>
     list_all2 (\<lambda>row c. build_bbduk_cmd (single_args outdir td p (snd row)) = Inr c) df cs"
proof (induction df arbitrary: cmds)
  case Nil
  then show ?case by simp
next
  case (Cons row rows)
  obtain sid fwd where row: "row = (sid, fwd)" by (cases row)
  from Cons.prems row obtain c where
    c: "build_bbduk_cmd (single_args outdir td p fwd) = Inr c" and
    r: "single_loop outdir td p rows (cmds @ [c]) = Inr res"
    by (auto split: sum.splits)
  from Cons.IH [OF r] obtain cs where "res = (cmds @ [c]) @ cs" and
    "list_all2 (\<lambda>row c. build_bbduk_cmd (single_args outdir td p (snd row)) = Inr c) rows cs"
    by blast
  with c row show ?case by (intro exI [of _ "c # cs"]) simp
qed

lemma single_loop_returns:
  "typed_single p \<Longrightarrow> \<exists>res. single_loop outdir td p df cmds = Inr res"
proof (induction df arbitrary: cmds)
  case Nil
  then show ?case by simp
next
  case (Cons row rows)
  obtain sid fwd where row: "row = (sid, fwd)" by (cases row)
  from build_returns [OF well_typed_single_args [OF Cons.prems]]
  obtain c where "build_bbduk_cmd (single_args outdir td p fwd) = Inr c" by blast
  with Cons.IH [OF Cons.prems, of "cmds @ [c]"] row show ?case by simp
qed

lemma paired_loop_Inr:
  "paired_loop outdir td p df cmds = Inr res \<Longrightarrow>
   \<exists>cs. res = cmds @ cs \<and>
     list_all2 (\<lambda>row c. build_bbduk_cmd
        (paired_args outdir td p (fst (snd row)) (snd (snd row))) = Inr c) df cs"
proof (induction df arbitrary: cmds)
  case Nil
  then show ?case by simp
next
  case (Cons row rows)
  obtain sid fwd rv where row: "row = (sid, fwd, rv)" by (cases row)
  from Cons.prems row obtain c where
    c: "build_bbduk_cmd (paired_args outdir td p fwd rv) = Inr c" and
    r: "paired_loop outdir td p rows (cmds @ [c]) = Inr res"
    by (auto split: sum.splits)
  from Cons.IH [OF r] obtain cs where "res = (cmds @ [c]) @ cs" and
    "list_all2 (\<lambda>row c. build_bbduk_cmd
        (paired_args outdir td p (fst (snd row)) (snd (snd row))) = Inr c) rows cs"
    by blast
  with c row show ?case by (intro exI [of _ "c # cs"]) simp
qed

lemma paired_loop_returns:
  "typed_paired p \<Longrightarrow> \<exists>res. paired_loop outdir td p df cmds = Inr res"
proof (induction df arbitrary: cmds)
  case Nil
  then show ?case by simp
next
  case (Cons row rows)
  obtain sid fwd rv where row: "row = (sid, fwd, rv)" by (cases row)
  from build_returns [OF well_typed_paired_args [OF Cons.prems]]
  obtain c where "build_bbduk_cmd (paired_args outdir td p fwd rv) = Inr c" by blast
  with Cons.IH [OF Cons.prems, of "cmds @ [c]"] row show ?case by simp
qed



lemma list_all2_map_eq:
  "list_all2 (\<lambda>x y. f y = g x) xs ys \<Longrightarrow> map f ys = map g xs"
  by (induction rule: list_all2_induct) simp_all





lemma single_args_fields:
  "in1 (single_args outdir td p fwd) = PStr fwd"
  "out1 (single_args outdir td p fwd) = PStr (path_join outdir (basename fwd))"
  "in2 (single_args outdir td p fwd) = PNone"
  "overwrite (single_args outdir td p fwd) = PBool True"
  by (simp_all add: single_args_def default_values)

lemma paired_args_fields:
  "in1 (paired_args outdir td p fwd rv) = PStr fwd"
  "out1 (paired_args outdir td p fwd rv) = PStr (path_join outdir (basename fwd))"
  "in2 (paired_args outdir td p fwd rv) = PStr rv"
  "out2 (paired_args outdir td p fwd rv) = PStr (path_join outdir (basename rv))"
  "overwrite (paired_args outdir td p fwd rv) = PBool True"
  "tpe (paired_args outdir td p fwd rv) = tpe p"
  "tbo (paired_args outdir td p fwd rv) = tbo p"
  "minoverlap (paired_args outdir td p fwd rv) = minoverlap p"
  by (simp_all add: paired_args_def default_values)

lemma single_cmds:
  assumes "typed_single p" and "single_loop outdir td p df [] = Inr cmds"
  shows "length cmds = length df"
    and "map (flag_values ''in'') cmds = map (\<lambda>row. [snd row]) df"
    and "map (flag_values ''out'') cmds =
           map (\<lambda>row. [path_join outdir (basename (snd row))]) df"
proof -
  let ?R = "\<lambda>row c. build_bbduk_cmd (single_args outdir td p (snd row)) = Inr c"
  from single_loop_Inr [OF assms(2)] have r: "list_all2 ?R df cmds" by simp
  then show "length cmds = length df" by (simp add: list_all2_lengthD)
  have "list_all2 (\<lambda>row c. flag_values ''in'' c = [snd row]) df cmds"
  proof (rule list_all2_mono [OF r])
    fix row c
    assume "build_bbduk_cmd (single_args outdir td p (snd row)) = Inr c"
    from core_values(3) [OF this]
    show "flag_values ''in'' c = [snd row]"
      by (simp add: single_args_fields)
  qed
  then show "map (flag_values ''in'') cmds = map (\<lambda>row. [snd row]) df"
    by (rule list_all2_map_eq)
  have "list_all2 (\<lambda>row c. flag_values ''out'' c = [path_join outdir (basename (snd row))]) df cmds"
  proof (rule list_all2_mono [OF r])
    fix row c
    assume "build_bbduk_cmd (single_args outdir td p (snd row)) = Inr c"
    from core_values(4) [OF this]
    show "flag_values ''out'' c = [path_join outdir (basename (snd row))]"
      by (simp add: single_args_fields)
  qed
  then show "map (flag_values ''out'') cmds =
           map (\<lambda>row. [path_join outdir (basename (snd row))]) df"
    by (rule list_all2_map_eq)
qed



lemma typed_default_single: "typed_single default_single"
  by (simp add: default_single_def bind_single_def arg_def default_of_def trim_defaults_def
      typed_single_def opt_str_def opt_int_def)

lemmas driver_eval =
  single_args_def paired_args_def default_single_def default_paired_def overlap_paired_def
  bind_single_def bind_paired_def arg_def default_of_def trim_defaults_def basename_def
  path_join_def

lemma manifest2_cmds:
  "single_loop ''/out'' ''/tmp/td'' default_single manifest2 [] = Inr [s1_cmd, s2_cmd]"
  by (simp add: manifest2_def s1_cmd_def s2_cmd_def driver_eval eval_simps)

subsection \<open>The single-end driver\<close>




lemma list_all2_set2:
  "list_all2 R xs ys \<Longrightarrow> y \<in> set ys \<Longrightarrow> \<exists>x\<in>set xs. R x y"
  by (induction rule: list_all2_induct) auto

lemma paired_cmds:
  assumes "typed_paired p" and "paired_loop outdir td p df [] = Inr cmds"
  shows "length cmds = length df"
    and "map (flag_values ''in'') cmds = map (\<lambda>row. [fst (snd row)]) df"
    and "map (flag_values ''in2'') cmds = map (\<lambda>row. [snd (snd row)]) df"
    and "map (flag_values ''out'') cmds =
           map (\<lambda>row. [path_join outdir (basename (fst (snd row)))]) df"
    and "map (flag_values ''out2'') cmds =
           map (\<lambda>row. [path_join outdir (basename (snd (snd row)))]) df"
    and "\<forall>c\<in>set cmds.
           flag_values ''tpe'' c = (if tpe p = PBool True then [''t''] else []) \<and>
           flag_values ''tbo'' c = (if tbo p = PBool True then [''t''] else []) \<and>
           flag_values ''minoverlap'' c =
             (if tbo p = PBool True then [py_str (minoverlap p)] else [])"
proof -
  let ?a = "\<lambda>row. paired_args outdir td p (fst (snd row)) (snd (snd row))"
  let ?R = "\<lambda>row c. build_bbduk_cmd (?a row) = Inr c"
  from paired_loop_Inr [OF assms(2)] have r: "list_all2 ?R df cmds" by simp
  from r show "length cmds = length df" by (simp add: list_all2_lengthD)
  have "list_all2 (\<lambda>row c. flag_values ''in'' c = [fst (snd row)]) df cmds"
  proof (rule list_all2_mono [OF r])
    fix row c
    assume "?R row c"
    from core_values(3) [OF this] show "flag_values ''in'' c = [fst (snd row)]"
      by (simp add: paired_args_fields)
  qed
  then show "map (flag_values ''in'') cmds = map (\<lambda>row. [fst (snd row)]) df"
    by (rule list_all2_map_eq)
  have "list_all2 (\<lambda>row c. flag_values ''in2'' c = [snd (snd row)]) df cmds"
  proof (rule list_all2_mono [OF r])
    fix row c
    assume "?R row c"
    from pair_values(1) [OF this] show "flag_values ''in2'' c = [snd (snd row)]"
      by (simp add: paired_args_fields)
  qed
  then show "map (flag_values ''in2'') cmds = map (\<lambda>row. [snd (snd row)]) df"
    by (rule list_all2_map_eq)
  have "list_all2 (\<lambda>row c. flag_values ''out'' c =
          [path_join outdir (basename (fst (snd row)))]) df cmds"
  proof (rule list_all2_mono [OF r])
    fix row c
    assume "?R row c"
    from core_values(4) [OF this]
    show "flag_values ''out'' c = [path_join outdir (basename (fst (snd row)))]"
      by (simp add: paired_args_fields)
  qed
  then show "map (flag_values ''out'') cmds =
           map (\<lambda>row. [path_join outdir (basename (fst (snd row)))]) df"
    by (rule list_all2_map_eq)
  have "list_all2 (\<lambda>row c. flag_values ''out2'' c =
          [path_join outdir (basename (snd (snd row)))]) df cmds"
  proof (rule list_all2_mono [OF r])
    fix row c
    assume "?R row c"
    from pair_values(2) [OF this]
    show "flag_values ''out2'' c = [path_join outdir (basename (snd (snd row)))]"
      by (simp add: paired_args_fields)
  qed
  then show "map (flag_values ''out2'') cmds =
           map (\<lambda>row. [path_join outdir (basename (snd (snd row)))]) df"
    by (rule list_all2_map_eq)
  from assms(1) obtain b1 b2 where b: "tpe p = PBool b1" "tbo p = PBool b2"
    by (cases "tpe p"; cases "tbo p"; simp add: typed_paired_def)
  show "\<forall>c\<in>set cmds.
           flag_values ''tpe'' c = (if tpe p = PBool True then [''t''] else []) \<and>
           flag_values ''tbo'' c = (if tbo p = PBool True then [''t''] else []) \<and>
           flag_values ''minoverlap'' c =
             (if tbo p = PBool True then [py_str (minoverlap p)] else [])"
  proof
    fix c assume cm: "c \<in> set cmds"
    from list_all2_set2 [OF r cm] obtain row where "?R row c" by auto
    from pair_values(3-5) [OF this] b
    show "flag_values ''tpe'' c = (if tpe p = PBool True then [''t''] else []) \<and>
           flag_values ''tbo'' c = (if tbo p = PBool True then [''t''] else []) \<and>
           flag_values ''minoverlap'' c =
             (if tbo p = PBool True then [py_str (minoverlap p)] else [])"
      by (simp add: paired_args_fields)
  qed
qed


lemma typed_default_paired: "typed_paired default_paired"
  by (simp add: default_paired_def bind_paired_def arg_def default_of_def trim_defaults_def
      typed_paired_def typed_single_def opt_str_def opt_int_def)

lemma typed_overlap_paired: "typed_paired overlap_paired"
  by (simp add: overlap_paired_def default_paired_def bind_paired_def arg_def default_of_def
      trim_defaults_def typed_paired_def typed_single_def opt_str_def opt_int_def)

lemma paired_manifest2_cmds:
  "paired_loop ''/out'' ''/tmp/td'' overlap_paired paired_manifest2 [] = Inr [p1_cmd, p2_cmd]"
  by (simp add: paired_manifest2_def p1_cmd_def p2_cmd_def driver_eval eval_simps)

subsection \<open>The paired-end driver\<close>




subsection \<open>A failing subprocess\<close>

text \<open>
  Claim C4. In a batch of N commands, if the subprocess of sample i is reached and exits
  with a non-zero status, \<^verbatim>\<open>run_commands\<close> raises CalledProcessError for that command
  at once: the subprocesses started are exactly those of samples 1 to i, each once, and
  none of samples i+1 to N is started. Nothing is retried and no later sample is
  attempted.
\<close>

theorem run_commands_stops_at_failure:
  assumes "i < length cmds"
      and "\<forall>j<i. sub (length (invoked w) + j) (cmds ! j) = Exited 0"
      and "sub (length (invoked w) + i) (cmds ! i) = Exited rc"
      and "rc \<noteq> 0"
  shows "fst (run_commands sub cmds w) = Inl (CalledProcessError rc (cmds ! i)) \<and>
         invoked (snd (run_commands sub cmds w)) = invoked w @ take (Suc i) cmds"
  using assms
proof (induction cmds arbitrary: i w)
  case Nil
  then show ?case by simp
next
  case (Cons cmd cmds)
  let ?w2 = "w\<lparr>stdout := stdout w @ newline @ ''Command: '' @ join_sp cmd @ newline @ newline,
                invoked := invoked w @ [cmd]\<rparr>"
  show ?case
  proof (cases i)
    case 0
    with Cons.prems show ?thesis by (simp add: Let_def)
  next
    case (Suc i')
    with Cons.prems have h0: "sub (length (invoked w)) cmd = Exited 0"
      by force
    have a: "i' < length cmds" using Cons.prems(1) Suc by simp
    have b: "\<forall>j<i'. sub (length (invoked ?w2) + j) (cmds ! j) = Exited 0"
    proof (intro allI impI)
      fix j assume "j < i'"
      then have "Suc j < i" using Suc by simp
      with Cons.prems(2) have "sub (length (invoked w) + Suc j) ((cmd # cmds) ! Suc j) = Exited 0"
        by blast
      then show "sub (length (invoked ?w2) + j) (cmds ! j) = Exited 0" by simp
    qed
    have c: "sub (length (invoked ?w2) + i') (cmds ! i') = Exited rc"
      using Cons.prems(3) Suc by simp
    from Cons.IH [OF a b c Cons.prems(4)] h0 Suc show ?thesis
      by (simp add: Let_def)
  qed
qed

theorem run_commands_stops_at_failure_witness:
  "2 < length five_cmds \<and>
   third_fails 0 (five_cmds ! 0) = Exited 0 \<and>
   third_fails 1 (five_cmds ! 1) = Exited 0 \<and>
   third_fails 2 (five_cmds ! 2) = Exited 1 \<and>
   fst (run_commands third_fails five_cmds quiet) =
     Inl (CalledProcessError 1 [''bbduk.sh'', ''in=/in/s3.fq'', ''out=/out/s3.fq'']) \<and>
   invoked (snd (run_commands third_fails five_cmds quiet)) =
     [[''bbduk.sh'', ''in=/in/s1.fq'', ''out=/out/s1.fq''],
      [''bbduk.sh'', ''in=/in/s2.fq'', ''out=/out/s2.fq''],
      [''bbduk.sh'', ''in=/in/s3.fq'', ''out=/out/s3.fq'']]"
proof -
  have a: "2 < length five_cmds"
    by (simp add: five_cmds_def)
  have b: "\<forall>j<2. third_fails (length (invoked quiet) + j) (five_cmds ! j) = Exited 0"
    by (simp add: third_fails_def quiet_def)
  have c: "third_fails (length (invoked quiet) + 2) (five_cmds ! 2) = Exited 1"
    by (simp add: third_fails_def quiet_def)
  have d: "(1::int) \<noteq> 0" by simp
  from run_commands_stops_at_failure [OF a b c d] a show ?thesis
    by (simp add: third_fails_def quiet_def five_cmds_def)
qed

text \<open>The drivers do not catch the exception: it reaches their caller with the world as it is.\<close>

lemma drivers_propagate:
  "single_loop outdir td p df [] = Inr cmds \<Longrightarrow> fst (run_commands sub cmds w) = Inl e \<Longrightarrow>
     trim_single sub outdir td df p w = (Inl e, snd (run_commands sub cmds w))"
  "paired_loop outdir td q df2 [] = Inr cmds \<Longrightarrow> fst (run_commands sub cmds w) = Inl e \<Longrightarrow>
     trim_paired sub outdir td df2 q w = (Inl e, snd (run_commands sub cmds w))"
  by (cases "run_commands sub cmds w"; simp add: trim_single_def trim_paired_def)+

subsection \<open>Overwriting\<close>

text \<open>
  Claim C9. Every command built by \<^verbatim>\<open>trim_single\<close> or \<^verbatim>\<open>trim_paired\<close> contains
  \<^verbatim>\<open>overwrite=t\<close>, and no other overwrite flag: neither driver has an overwrite
  parameter and neither passes one, so the builder's default \<^verbatim>\<open>True\<close> is in effect for
  every row, whatever the parameters of the driver are. With typed parameters both
  drivers do build their commands.
\<close>

theorem drivers_always_overwrite:
  "(single_loop outdir td p df [] = Inr cmds \<longrightarrow>
      (\<forall>c\<in>set cmds. ''overwrite=t'' \<in> set c \<and> flag_values ''overwrite'' c = [''t''])) \<and>
   (paired_loop outdir td q df2 [] = Inr cmds2 \<longrightarrow>
      (\<forall>c\<in>set cmds2. ''overwrite=t'' \<in> set c \<and> flag_values ''overwrite'' c = [''t''])) \<and>
   (typed_single p \<longrightarrow> (\<exists>cs. single_loop outdir td p df [] = Inr cs)) \<and>
   (typed_paired q \<longrightarrow> (\<exists>cs. paired_loop outdir td q df2 [] = Inr cs))"
proof (intro conjI impI ballI)
  fix c
  assume l: "single_loop outdir td p df [] = Inr cmds" and c: "c \<in> set cmds"
  from single_loop_Inr [OF l] have
    "list_all2 (\<lambda>row c. build_bbduk_cmd (single_args outdir td p (snd row)) = Inr c) df cmds"
    by simp
  from list_all2_set2 [OF this c] obtain row where
    "build_bbduk_cmd (single_args outdir td p (snd row)) = Inr c" by auto
  from core_values(11,14) [OF this]
  show "''overwrite=t'' \<in> set c" and "flag_values ''overwrite'' c = [''t'']"
    by (simp_all add: single_args_fields)
next
  fix c
  assume l: "paired_loop outdir td q df2 [] = Inr cmds2" and c: "c \<in> set cmds2"
  from paired_loop_Inr [OF l] have
    "list_all2 (\<lambda>row c. build_bbduk_cmd
        (paired_args outdir td q (fst (snd row)) (snd (snd row))) = Inr c) df2 cmds2"
    by simp
  from list_all2_set2 [OF this c] obtain row where
    "build_bbduk_cmd (paired_args outdir td q (fst (snd row)) (snd (snd row))) = Inr c" by auto
  from core_values(11,14) [OF this]
  show "''overwrite=t'' \<in> set c" and "flag_values ''overwrite'' c = [''t'']"
    by (simp_all add: paired_args_fields)
next
  assume "typed_single p"
  then show "\<exists>cs. single_loop outdir td p df [] = Inr cs"
    by (rule single_loop_returns)
next
  assume "typed_paired q"
  then show "\<exists>cs. paired_loop outdir td q df2 [] = Inr cs"
    by (rule paired_loop_returns)
qed

theorem drivers_always_overwrite_witness:
  "typed_single default_single \<and> typed_paired overlap_paired \<and>
   single_loop ''/out'' ''/tmp/td'' default_single manifest2 [] = Inr [s1_cmd, s2_cmd] \<and>
   ''overwrite=t'' \<in> set s1_cmd \<and> flag_values ''overwrite'' s1_cmd = [''t''] \<and>
   ''overwrite=t'' \<in> set s2_cmd \<and> flag_values ''overwrite'' s2_cmd = [''t''] \<and>
   paired_loop ''/out'' ''/tmp/td'' overlap_paired paired_manifest2 [] = Inr [p1_cmd, p2_cmd] \<and>
   ''overwrite=t'' \<in> set p1_cmd \<and> flag_values ''overwrite'' p1_cmd = [''t''] \<and>
   ''overwrite=t'' \<in> set p2_cmd \<and> flag_values ''overwrite'' p2_cmd = [''t'']"
  using drivers_always_overwrite [of "''/out''" "''/tmp/td''" default_single manifest2
      "[s1_cmd, s2_cmd]" overlap_paired paired_manifest2 "[p1_cmd, p2_cmd]"]
    manifest2_cmds paired_manifest2_cmds typed_default_single typed_overlap_paired
  by simp

subsection \<open>Output names\<close>

lemma map_append_eq:
  "map f xs = map g ys \<Longrightarrow> map f' xs = map g' ys \<Longrightarrow>
   map (\<lambda>x. f x @ f' x) xs = map (\<lambda>y. g y @ g' y) ys"
  by (induction xs arbitrary: ys) (auto simp add: Cons_eq_map_conv)

lemma map_eq_nth:
  assumes "map f xs = map g ys" and "i < length ys"
  shows "f (xs ! i) = g (ys ! i)"
proof -
  from assms(1) have len: "length xs = length ys"
    by (rule map_eq_imp_length_eq)
  from assms(1) have "map f xs ! i = map g ys ! i" by simp
  with len assms(2) show ?thesis by simp
qed

text \<open>
  Claim C10. The output paths are determined by the basenames of the inputs alone: the
  out= path of a row is the output directory joined with the basename of its forward
  read, and out2= likewise for the reverse read. So two rows whose inputs have equal
  basenames get identical out= paths, and a paired row whose two reads share a basename
  gets out= equal to out2=; the output paths can be pairwise distinct only when the
  input basenames are.
\<close>

theorem outputs_named_by_basename:
  assumes "typed_single p" and "typed_paired q"
  shows "(\<exists>cmds. single_loop outdir td p df [] = Inr cmds \<and>
            map (flag_values ''out'') cmds =
              map (\<lambda>row. [path_join outdir (basename (snd row))]) df \<and>
            (\<forall>i<length df. \<forall>j<length df.
               basename (snd (df ! i)) = basename (snd (df ! j)) \<longrightarrow>
               flag_values ''out'' (cmds ! i) = flag_values ''out'' (cmds ! j)) \<and>
            (distinct (map (flag_values ''out'') cmds) \<longrightarrow>
               distinct (map (\<lambda>row. basename (snd row)) df))) \<and>
         (\<exists>cmds. paired_loop outdir td q df2 [] = Inr cmds \<and>
            map (flag_values ''out'') cmds =
              map (\<lambda>row. [path_join outdir (basename (fst (snd row)))]) df2 \<and>
            map (flag_values ''out2'') cmds =
              map (\<lambda>row. [path_join outdir (basename (snd (snd row)))]) df2 \<and>
            (\<forall>i<length df2.
               basename (fst (snd (df2 ! i))) = basename (snd (snd (df2 ! i))) \<longrightarrow>
               flag_values ''out'' (cmds ! i) = flag_values ''out2'' (cmds ! i)) \<and>
            (\<forall>i<length df2. \<forall>j<length df2.
               basename (fst (snd (df2 ! i))) = basename (fst (snd (df2 ! j))) \<longrightarrow>
               flag_values ''out'' (cmds ! i) = flag_values ''out'' (cmds ! j)) \<and>
            (distinct (concat (map (\<lambda>c. flag_values ''out'' c @ flag_values ''out2'' c) cmds)) \<longrightarrow>
               distinct (concat (map (\<lambda>row. [basename (fst (snd row)), basename (snd (snd row))])
                 df2))))"
proof (rule conjI)
  from single_loop_returns [OF assms(1)] obtain cmds where
    l: "single_loop outdir td p df [] = Inr cmds" by blast
  note m = single_cmds(3) [OF assms(1) l]
  have same: "\<forall>i<length df. \<forall>j<length df.
      basename (snd (df ! i)) = basename (snd (df ! j)) \<longrightarrow>
      flag_values ''out'' (cmds ! i) = flag_values ''out'' (cmds ! j)"
    by (simp add: map_eq_nth [OF m])
  have "distinct (map (\<lambda>row. basename (snd row)) df)"
    if "distinct (map (flag_values ''out'') cmds)"
  proof -
    have "map (flag_values ''out'') cmds =
          map (\<lambda>b. [path_join outdir b]) (map (\<lambda>row. basename (snd row)) df)"
      using m by (simp add: comp_def)
    with that have "distinct (map (\<lambda>b. [path_join outdir b])
        (map (\<lambda>row. basename (snd row)) df))"
      by (simp only:)
    then show ?thesis
      by (rule distinct_map [THEN iffD1, THEN conjunct1])
  qed
  with l m same show "\<exists>cmds. single_loop outdir td p df [] = Inr cmds \<and>
            map (flag_values ''out'') cmds =
              map (\<lambda>row. [path_join outdir (basename (snd row))]) df \<and>
            (\<forall>i<length df. \<forall>j<length df.
               basename (snd (df ! i)) = basename (snd (df ! j)) \<longrightarrow>
               flag_values ''out'' (cmds ! i) = flag_values ''out'' (cmds ! j)) \<and>
            (distinct (map (flag_values ''out'') cmds) \<longrightarrow>
               distinct (map (\<lambda>row. basename (snd row)) df))"
    by blast
next
  from paired_loop_returns [OF assms(2)] obtain cmds where
    l: "paired_loop outdir td q df2 [] = Inr cmds" by blast
  note m1 = paired_cmds(4) [OF assms(2) l]
  note m2 = paired_cmds(5) [OF assms(2) l]
  have same_row: "\<forall>i<length df2.
      basename (fst (snd (df2 ! i))) = basename (snd (snd (df2 ! i))) \<longrightarrow>
      flag_values ''out'' (cmds ! i) = flag_values ''out2'' (cmds ! i)"
    by (simp add: map_eq_nth [OF m1] map_eq_nth [OF m2])
  have same: "\<forall>i<length df2. \<forall>j<length df2.
      basename (fst (snd (df2 ! i))) = basename (fst (snd (df2 ! j))) \<longrightarrow>
      flag_values ''out'' (cmds ! i) = flag_values ''out'' (cmds ! j)"
    by (simp add: map_eq_nth [OF m1])
  have "distinct (concat (map (\<lambda>row. [basename (fst (snd row)), basename (snd (snd row))]) df2))"
    if d: "distinct (concat (map (\<lambda>c. flag_values ''out'' c @ flag_values ''out2'' c) cmds))"
  proof -
    have "concat (map (\<lambda>c. flag_values ''out'' c @ flag_values ''out2'' c) cmds) =
          concat (map (\<lambda>row. [path_join outdir (basename (fst (snd row)))] @
                              [path_join outdir (basename (snd (snd row)))]) df2)"
      by (simp only: map_append_eq [OF m1 m2])
    also have "\<dots> = map (path_join outdir)
        (concat (map (\<lambda>row. [basename (fst (snd row)), basename (snd (snd row))]) df2))"
      by (simp add: map_concat comp_def)
    finally have "distinct (map (path_join outdir)
        (concat (map (\<lambda>row. [basename (fst (snd row)), basename (snd (snd row))]) df2)))"
      using d by (simp only:)
    then show ?thesis
      by (rule distinct_map [THEN iffD1, THEN conjunct1])
  qed
  with l m1 m2 same_row same show "\<exists>cmds. paired_loop outdir td q df2 [] = Inr cmds \<and>
            map (flag_values ''out'') cmds =
              map (\<lambda>row. [path_join outdir (basename (fst (snd row)))]) df2 \<and>
            map (flag_values ''out2'') cmds =
              map (\<lambda>row. [path_join outdir (basename (snd (snd row)))]) df2 \<and>
            (\<forall>i<length df2.
               basename (fst (snd (df2 ! i))) = basename (snd (snd (df2 ! i))) \<longrightarrow>
               flag_values ''out'' (cmds ! i) = flag_values ''out2'' (cmds ! i)) \<and>
            (\<forall>i<length df2. \<forall>j<length df2.
               basename (fst (snd (df2 ! i))) = basename (fst (snd (df2 ! j))) \<longrightarrow>
               flag_values ''out'' (cmds ! i) = flag_values ''out'' (cmds ! j)) \<and>
            (distinct (concat (map (\<lambda>c. flag_values ''out'' c @ flag_values ''out2'' c) cmds)) \<longrightarrow>
               distinct (concat (map (\<lambda>row. [basename (fst (snd row)), basename (snd (snd row))])
                 df2)))"
    by blast
qed

theorem outputs_named_by_basename_witness:
  "typed_single default_single \<and> typed_paired default_paired \<and>
   basename ''/a/x.fq'' = basename ''/b/x.fq'' \<and>
   (\<exists>cmds. single_loop ''/out'' ''/tmp/td'' default_single same_name_manifest [] = Inr cmds \<and>
      map (flag_values ''out'') cmds = [[''/out/x.fq''], [''/out/x.fq'']]) \<and>
   basename ''/fwd/s1.fq'' = basename ''/rev/s1.fq'' \<and>
   (\<exists>cmds. paired_loop ''/out'' ''/tmp/td'' default_paired same_name_pair [] = Inr cmds \<and>
      map (flag_values ''out'') cmds = [[''/out/s1.fq'']] \<and>
      map (flag_values ''out2'') cmds = [[''/out/s1.fq'']])"
proof -
  from outputs_named_by_basename [OF typed_default_single typed_default_paired,
      of "''/out''" "''/tmp/td''" same_name_manifest same_name_pair]
  obtain cmds cmds' where
    "single_loop ''/out'' ''/tmp/td'' default_single same_name_manifest [] = Inr cmds"
    "map (flag_values ''out'') cmds =
       map (\<lambda>row. [path_join ''/out'' (basename (snd row))]) same_name_manifest"
    "paired_loop ''/out'' ''/tmp/td'' default_paired same_name_pair [] = Inr cmds'"
    "map (flag_values ''out'') cmds' =
       map (\<lambda>row. [path_join ''/out'' (basename (fst (snd row)))]) same_name_pair"
    "map (flag_values ''out2'') cmds' =
       map (\<lambda>row. [path_join ''/out'' (basename (snd (snd row)))]) same_name_pair"
    by blast
  then show ?thesis
    using typed_default_single typed_default_paired
    by (simp add: same_name_manifest_def same_name_pair_def basename_def path_join_def)
qed

section \<open>Properties of the registration\<close>

text \<open>The declared type of each constrained parameter, looked up in the two tables.\<close>

lemma declared_types:
  "map_of trim_single_parameters ''k'' = Some (Refined Int_prim (Range_pred (Some 1) None True False))"
  "map_of trim_single_parameters ''ktrim'' = Some (Refined Str (Choices [''f'', ''r'', ''l'']))"
  "map_of trim_single_parameters ''mink'' = Some (Refined Int_prim (Range_pred (Some 0) None True False))"
  "map_of trim_single_parameters ''qtrim'' =
     Some (Refined Str (Choices [''rl'', ''f'', ''r'', ''l'', ''w'']))"
  "map_of trim_single_parameters ''trimq'' = Some (Refined Float (Range_pred (Some 0) None True False))"
  "map_of trim_single_parameters ''minlength'' =
     Some (Refined Int_prim (Range_pred (Some 1) None True False))"
  "map_of trim_single_parameters ''forcetrimleft'' =
     Some (Refined Int_prim (Range_pred (Some 0) None True False))"
  "map_of trim_single_parameters ''forcetrimright'' =
     Some (Refined Int_prim (Range_pred (Some 0) None True False))"
  "map_of trim_single_parameters ''minoverlap'' = None"
  "map_of trim_paired_parameters ''k'' = Some (Refined Int_prim (Range_pred (Some 1) None True False))"
  "map_of trim_paired_parameters ''ktrim'' = Some (Refined Str (Choices [''f'', ''r'', ''l'']))"
  "map_of trim_paired_parameters ''mink'' = Some (Refined Int_prim (Range_pred (Some 0) None True False))"
  "map_of trim_paired_parameters ''qtrim'' =
     Some (Refined Str (Choices [''rl'', ''f'', ''r'', ''l'', ''w'']))"
  "map_of trim_paired_parameters ''trimq'' = Some (Refined Float (Range_pred (Some 0) None True False))"
  "map_of trim_paired_parameters ''minlength'' =
     Some (Refined Int_prim (Range_pred (Some 1) None True False))"
  "map_of trim_paired_parameters ''minoverlap'' =
     Some (Refined Int_prim (Range_pred (Some 1) None True False))"
  "map_of trim_paired_parameters ''forcetrimleft'' =
     Some (Refined Int_prim (Range_pred (Some 0) None True False))"
  "map_of trim_paired_parameters ''forcetrimright'' =
     Some (Refined Int_prim (Range_pred (Some 0) None True False))"
  by (simp_all add: trim_single_parameters_def trim_paired_parameters_def)

text \<open>What the three kinds of declaration admit.\<close>

lemma admits_at_least:
  "admits th (Refined Int_prim (Range_pred (Some a) None True False)) v =
     (case v of PInt i \<Rightarrow> a \<le> i | _ \<Rightarrow> False)"
  "admits th (Refined Float (Range_pred (Some a) None True False)) v =
     (case v of PFloat x s \<Rightarrow> of_int a \<le> x | _ \<Rightarrow> False)"
  "admits th (Refined Str (Choices cs)) v = (case v of PStr s \<Rightarrow> s \<in> set cs | _ \<Rightarrow> False)"
  by (cases v; simp add: in_range_def)+

lemma claimed_names:
  "\<not> claimed_constraint name v \<Longrightarrow>
   name \<in> {''k'', ''ktrim'', ''mink'', ''qtrim'', ''trimq'', ''minlength'', ''forcetrimleft'',
           ''forcetrimright'', ''minoverlap''}"
  by (auto simp add: claimed_constraint_def split: if_splits)

lemma single_declares:
  assumes "name \<in> {''k'', ''ktrim'', ''mink'', ''qtrim'', ''trimq'', ''minlength'',
                    ''forcetrimleft'', ''forcetrimright''}"
  shows "\<exists>t. map_of trim_single_parameters name = Some t \<and>
             (\<forall>v. admits th t v = claimed_constraint name v)"
  using assms
  by (auto simp add: declared_types claimed_constraint_def in_range_def split: pyval.splits)

lemma paired_declares:
  assumes "name \<in> {''k'', ''ktrim'', ''mink'', ''qtrim'', ''trimq'', ''minlength'',
                    ''forcetrimleft'', ''forcetrimright'', ''minoverlap''}"
  shows "\<exists>t. map_of trim_paired_parameters name = Some t \<and>
             (\<forall>v. admits th t v = claimed_constraint name v)"
  using assms
  by (auto simp add: declared_types claimed_constraint_def in_range_def split: pyval.splits)

lemma validate_fails:
  assumes "(name, v) \<in> set supplied"
      and "case map_of decls name of None \<Rightarrow> True | Some t \<Rightarrow> \<not> admits th t v"
  shows "\<not> validate th decls supplied"
proof
  assume "validate th decls supplied"
  with assms(1) have "case map_of decls name of None \<Rightarrow> False | Some t \<Rightarrow> admits th t v"
    by (auto simp add: validate_def list_all_iff)
  with assms(2) show False
    by (simp split: option.splits)
qed

text \<open>
  Claim C8. For both registered operations the declared type of each constrained
  parameter admits exactly the values the spec lists: ktrim in f, r, l; qtrim in rl, f,
  r, l, w; k, minlength at least 1; mink, forcetrimleft, forcetrimright at least 0;
  trimq at least 0; and minoverlap at least 1, which only the paired operation has (the
  single operation declares no such parameter, so it rejects any value supplied for
  it). A call that supplies a value outside these constraints is rejected by the
  framework's gate with the world untouched: no driver code runs, no command is built
  and no subprocess is started.
\<close>

theorem registration_rejects_invalid:
  "(\<forall>name\<in>{''k'', ''ktrim'', ''mink'', ''qtrim'', ''trimq'', ''minlength'', ''forcetrimleft'',
             ''forcetrimright''}.
      \<exists>t. map_of trim_single_parameters name = Some t \<and>
          (\<forall>v. admits threads_ok t v = claimed_constraint name v)) \<and>
   (\<forall>name\<in>{''k'', ''ktrim'', ''mink'', ''qtrim'', ''trimq'', ''minlength'', ''forcetrimleft'',
             ''forcetrimright'', ''minoverlap''}.
      \<exists>t. map_of trim_paired_parameters name = Some t \<and>
          (\<forall>v. admits threads_ok t v = claimed_constraint name v)) \<and>
   ((name, v) \<in> set supplied \<and> \<not> claimed_constraint name v \<longrightarrow>
      call_trim_single threads_ok sub outdir td df supplied w = (Inl Rejected, w) \<and>
      call_trim_paired threads_ok sub outdir td df2 supplied w = (Inl Rejected, w))"
proof (intro conjI ballI impI)
  fix name :: string
  assume "name \<in> {''k'', ''ktrim'', ''mink'', ''qtrim'', ''trimq'', ''minlength'',
                   ''forcetrimleft'', ''forcetrimright''}"
  then show "\<exists>t. map_of trim_single_parameters name = Some t \<and>
                 (\<forall>v. admits threads_ok t v = claimed_constraint name v)"
    by (rule single_declares)
next
  fix name :: string
  assume "name \<in> {''k'', ''ktrim'', ''mink'', ''qtrim'', ''trimq'', ''minlength'',
                   ''forcetrimleft'', ''forcetrimright'', ''minoverlap''}"
  then show "\<exists>t. map_of trim_paired_parameters name = Some t \<and>
                 (\<forall>v. admits threads_ok t v = claimed_constraint name v)"
    by (rule paired_declares)
next
  assume a: "(name, v) \<in> set supplied \<and> \<not> claimed_constraint name v"
  then have "\<not> claimed_constraint name v" by simp
  then have n: "name \<in> {''k'', ''ktrim'', ''mink'', ''qtrim'', ''trimq'', ''minlength'',
      ''forcetrimleft'', ''forcetrimright'', ''minoverlap''}"
    by (rule claimed_names)
  from paired_declares [OF n, of threads_ok] obtain t where
    t: "map_of trim_paired_parameters name = Some t"
       "\<forall>v. admits threads_ok t v = claimed_constraint name v"
    by blast
  with a have "\<not> admits threads_ok t v" by simp
  with t(1) have "case map_of trim_paired_parameters name of
          None \<Rightarrow> True | Some t \<Rightarrow> \<not> admits threads_ok t v"
    by simp
  with a have "\<not> validate threads_ok trim_paired_parameters supplied"
    by (intro validate_fails) simp_all
  then show "call_trim_paired threads_ok sub outdir td df2 supplied w = (Inl Rejected, w)"
    by (simp add: call_trim_paired_def)
  have "case map_of trim_single_parameters name of
          None \<Rightarrow> True | Some t \<Rightarrow> \<not> admits threads_ok t v"
  proof (cases "name = ''minoverlap''")
    case True
    then show ?thesis by (simp add: declared_types)
  next
    case False
    with n have "name \<in> {''k'', ''ktrim'', ''mink'', ''qtrim'', ''trimq'', ''minlength'',
        ''forcetrimleft'', ''forcetrimright''}"
      by simp
    from single_declares [OF this, of threads_ok] obtain t' where
      t': "map_of trim_single_parameters name = Some t'"
          "\<forall>v. admits threads_ok t' v = claimed_constraint name v"
      by blast
    with a have "\<not> admits threads_ok t' v" by simp
    with t'(1) show ?thesis by simp
  qed
  with a have "\<not> validate threads_ok trim_single_parameters supplied"
    by (intro validate_fails) simp_all
  then show "call_trim_single threads_ok sub outdir td df supplied w = (Inl Rejected, w)"
    by (simp add: call_trim_single_def)
qed

theorem registration_rejects_invalid_witness:
  "map_of trim_single_parameters ''ktrim'' = Some (Refined Str (Choices [''f'', ''r'', ''l''])) \<and>
   map_of trim_paired_parameters ''minoverlap'' =
     Some (Refined Int_prim (Range_pred (Some 1) None True False)) \<and>
   (''k'', PInt 0) \<in> set [(''k'', PInt 0)] \<and>
   \<not> claimed_constraint ''k'' (PInt 0) \<and>
   call_trim_single is_int all_exit_zero ''/out'' ''/tmp/td'' manifest2 [(''k'', PInt 0)] quiet =
     (Inl Rejected, quiet) \<and>
   call_trim_paired is_int all_exit_zero ''/out'' ''/tmp/td'' paired_manifest2 [(''k'', PInt 0)] quiet =
     (Inl Rejected, quiet)"
proof -
  have c: "\<not> claimed_constraint ''k'' (PInt 0)"
    by (simp add: claimed_constraint_def)
  from registration_rejects_invalid [of is_int "''k''" "PInt 0" "[(''k'', PInt 0)]"
      all_exit_zero "''/out''" "''/tmp/td''" manifest2 quiet paired_manifest2] c
  show ?thesis
    by (simp add: declared_types)
qed

text \<open>The gate lets admissible values through to the driver.\<close>

lemma valid_call_runs:
  "call_trim_single is_int sub outdir td df
     [(''k'', PInt 31), (''ktrim'', PStr ''r''), (''trimq'', PFloat 10 ''10.0'')] w =
   raised (trim_single sub outdir td df
     (bind_single [(''k'', PInt 31), (''ktrim'', PStr ''r''), (''trimq'', PFloat 10 ''10.0'')]) w)"
  by (simp add: call_trim_single_def validate_def declared_types in_range_def)

end
